theory Spec2Isabelle
  imports Complex_Main "HOL-Library.Multiset"
begin

section \<open>Scores as Python floats\<close>

text \<open>
  The classifier of stage 3 receives a Python \<open>float\<close>: a finite value, one of the two
  infinities, or NaN. It only compares its argument with decimal literals. A finite float
  is modelled here by the decimal number it is written as (the shortest decimal that reads
  back as this float, which is how Python prints it), and so is a literal such as
  \<open>0.80\<close>. This reading keeps the order of floats, so a comparison of the source is the
  comparison of the two decimals. Every comparison with NaN is false, as in IEEE 754.
\<close>

datatype pyfloat = Finite real | PosInf | NegInf | NaN

fun float_lt :: "pyfloat \<Rightarrow> pyfloat \<Rightarrow> bool" where
  "float_lt NaN b = False"
| "float_lt a NaN = False"
| "float_lt (Finite x) (Finite y) = (x < y)"
| "float_lt a NegInf = False"
| "float_lt NegInf b = True"
| "float_lt PosInf b = False"
| "float_lt a PosInf = True"

fun float_le :: "pyfloat \<Rightarrow> pyfloat \<Rightarrow> bool" where
  "float_le NaN b = False"
| "float_le a NaN = False"
| "float_le (Finite x) (Finite y) = (x \<le> y)"
| "float_le NegInf b = True"
| "float_le a NegInf = False"
| "float_le a PosInf = True"
| "float_le PosInf b = False"

definition float_gt :: "pyfloat \<Rightarrow> pyfloat \<Rightarrow> bool" where
  "float_gt a b = float_lt b a"

definition float_ge :: "pyfloat \<Rightarrow> pyfloat \<Rightarrow> bool" where
  "float_ge a b = float_le b a"

fun is_finite :: "pyfloat \<Rightarrow> bool" where
  "is_finite (Finite x) = True"
| "is_finite a = False"

section \<open>Stage 3: rule-based stage detection\<close>

text \<open>
  \<open>determine_stage\<close> of \<open>stage3_rule_based_analysis.py\<close>:
  \<^verbatim>\<open>if similarity_value > 0.80: "installation"\<close>,
  \<^verbatim>\<open>elif 0.60 <= similarity_value <= 0.80: "mounting"\<close>, \<^verbatim>\<open>else: "foundation"\<close>.
  The chained comparison is the conjunction of its two halves.
\<close>

definition determine_stage :: "pyfloat \<Rightarrow> string" where
  "determine_stage similarity_value =
     (if float_gt similarity_value (Finite 0.80) then ''installation''
      else if float_le (Finite 0.60) similarity_value \<and> float_le similarity_value (Finite 0.80)
        then ''mounting''
      else ''foundation'')"

text \<open>
  \<open>determine_stage\<close> of \<open>stage3_working.py\<close>:
  \<^verbatim>\<open>if similarity > 0.80: "installation"\<close>, \<^verbatim>\<open>elif similarity >= 0.70: "mounting"\<close>,
  \<^verbatim>\<open>else: "foundation"\<close>.
\<close>

definition determine_stage_working :: "pyfloat \<Rightarrow> string" where
  "determine_stage_working similarity =
     (if float_gt similarity (Finite 0.80) then ''installation''
      else if float_ge similarity (Finite 0.70) then ''mounting''
      else ''foundation'')"

text \<open>
  The stage names in the order in which stage 5 lists them, which is the order of
  construction maturity: foundation, then mounting, then installation.
\<close>

definition stages :: "string list" where
  "stages = [''foundation'', ''mounting'', ''installation'']"

definition maturity :: "string \<Rightarrow> nat" where
  "maturity s =
     (if s = ''foundation'' then 0 else if s = ''mounting'' then 1
      else if s = ''installation'' then 2 else 3)"

section \<open>Stage 5: float64 arithmetic\<close>

text \<open>
  Stage 5 computes with floats, so here a float is its exact value: \<open>Val x\<close> is the double
  whose bits denote the real number \<open>x\<close>, next to the two infinities and NaN. The two zeros
  are not told apart. A number read from the feedback log, and a decimal literal, is the
  double nearest to it (\<open>double\<close>).
\<close>

datatype float64 = Val real | PlusInfinity | MinusInfinity | NotANumber

text \<open>
  The nearest integer, a tie going to the even one: \<open>numpy.rint\<close>, and the tie rule of
  every IEEE 754 operation.
\<close>

definition rint :: "real \<Rightarrow> int" where
  "rint x =
     (let f = \<lfloor>x\<rfloor>; d = x - of_int f in
      if d < 1 / 2 then f else if 1 / 2 < d then f + 1
      else if even f then f else f + 1)"

text \<open>
  The double nearest to a real number. In the binade from 2 to the power \<open>e\<close> up to 2 to
  the power \<open>e + 1\<close> the doubles are the multiples of 2 to the power \<open>e - 52\<close>; below
  exponent -1022 the spacing stays that of the subnormal numbers. A result that reaches
  2 to the power 1024 overflows to an infinity.
\<close>

definition exponent :: "real \<Rightarrow> int" where
  "exponent x = max \<lfloor>log 2 \<bar>x\<bar>\<rfloor> (- 1022)"

definition round_double :: "real \<Rightarrow> float64" where
  "round_double x =
     (if x = 0 then Val 0
      else
        (let q = 2 powi (exponent x - 52); r = of_int (rint (x / q)) * q in
         if 2 powi 1024 \<le> \<bar>r\<bar> then (if 0 < x then PlusInfinity else MinusInfinity)
         else Val r))"

definition double :: "real \<Rightarrow> float64" where
  "double x = round_double x"

text \<open>
  Addition, subtraction, multiplication, division and square root of doubles: the exact
  result, rounded once, with the IEEE 754 rules for infinities and NaN. The scripts and
  the numpy routines they call divide by the number of samples and by 1000 only, so
  \<open>fdiv\<close> takes a positive finite divisor.
\<close>

fun fneg :: "float64 \<Rightarrow> float64" where
  "fneg (Val x) = Val (- x)"
| "fneg PlusInfinity = MinusInfinity"
| "fneg MinusInfinity = PlusInfinity"
| "fneg NotANumber = NotANumber"

fun fadd :: "float64 \<Rightarrow> float64 \<Rightarrow> float64" where
  "fadd NotANumber b = NotANumber"
| "fadd a NotANumber = NotANumber"
| "fadd (Val x) (Val y) = round_double (x + y)"
| "fadd PlusInfinity MinusInfinity = NotANumber"
| "fadd MinusInfinity PlusInfinity = NotANumber"
| "fadd (Val x) b = b"
| "fadd a b = a"

definition fsub :: "float64 \<Rightarrow> float64 \<Rightarrow> float64" where
  "fsub a b = fadd a (fneg b)"

fun fmul :: "float64 \<Rightarrow> float64 \<Rightarrow> float64" where
  "fmul NotANumber b = NotANumber"
| "fmul a NotANumber = NotANumber"
| "fmul (Val x) (Val y) = round_double (x * y)"
| "fmul (Val x) b = (if x = 0 then NotANumber else if 0 < x then b else fneg b)"
| "fmul a (Val y) = (if y = 0 then NotANumber else if 0 < y then a else fneg a)"
| "fmul a b = (if a = b then PlusInfinity else MinusInfinity)"

fun fdiv :: "float64 \<Rightarrow> real \<Rightarrow> float64" where
  "fdiv (Val x) d = round_double (x / d)"
| "fdiv a d = a"

fun fsqrt :: "float64 \<Rightarrow> float64" where
  "fsqrt (Val x) = (if x < 0 then NotANumber else round_double (sqrt x))"
| "fsqrt MinusInfinity = NotANumber"
| "fsqrt a = a"

text \<open>
  The two roundings to three decimals. \<open>stage5_working.py\<close> calls \<open>round\<close> on a
  \<open>numpy.float64\<close>, which multiplies by 1000, rounds to the nearest integer and divides by
  1000, each step a float operation. \<open>stage5_self_learning.py\<close> converts to a Python
  \<open>float\<close> first; Python rounds the exact value of the float to three decimals, a tie going
  to the even digit, and returns the double nearest to that decimal. A float that is not
  finite is returned as it is.
\<close>

fun np_rint :: "float64 \<Rightarrow> float64" where
  "np_rint (Val x) = Val (of_int (rint x))"
| "np_rint a = a"

definition np_round3 :: "float64 \<Rightarrow> float64" where
  "np_round3 a = fdiv (np_rint (fmul a (Val (10 ^ 3)))) (10 ^ 3)"

fun py_round3 :: "float64 \<Rightarrow> float64" where
  "py_round3 (Val x) = round_double (of_int (rint (x * 10 ^ 3)) / 10 ^ 3)"
| "py_round3 a = a"

text \<open>
  \<open>numpy.add.reduce\<close> on a float64 array (pairwise summation): fewer than eight numbers
  are added from left to right; up to 128 numbers are added in eight interleaved lanes,
  the lanes are combined in a fixed tree and the remaining numbers are added one by one;
  a longer array is split in two halves.
\<close>

function block_loop :: "float64 list \<Rightarrow> float64 list \<Rightarrow> float64 list \<times> float64 list" where
  "block_loop r xs =
     (if 8 \<le> length xs then block_loop (map2 fadd r (take 8 xs)) (drop 8 xs) else (r, xs))"
  by pat_completeness auto
termination
  by (relation "measure (\<lambda>(r, xs). length xs)") auto

definition combine8 :: "float64 list \<Rightarrow> float64" where
  "combine8 r =
     fadd (fadd (fadd (r ! 0) (r ! 1)) (fadd (r ! 2) (r ! 3)))
          (fadd (fadd (r ! 4) (r ! 5)) (fadd (r ! 6) (r ! 7)))"

function pairwise_sum :: "float64 list \<Rightarrow> float64" where
  "pairwise_sum xs =
     (let n = length xs in
      if n < 8 then foldl fadd (Val 0) xs
      else if n \<le> 128 then
        (case block_loop (take 8 xs) (drop 8 xs) of
           (r, rest) \<Rightarrow> foldl fadd (combine8 r) rest)
      else
        (let n2 = n div 2 - (n div 2) mod 8 in
         fadd (pairwise_sum (take n2 xs)) (pairwise_sum (drop n2 xs))))"
  by pat_completeness auto
termination
  by (relation "measure length") auto

definition np_sum :: "float64 list \<Rightarrow> float64" where
  "np_sum xs = fadd (Val 0) (pairwise_sum xs)"

text \<open>
  \<open>numpy.mean\<close> and \<open>numpy.std\<close> of a list: the sum divided by the count; the square root of
  the mean of the squared deviations from that mean (divisor \<open>N\<close>). Both are only called
  on a non-empty list.
\<close>

definition np_mean :: "float64 list \<Rightarrow> float64" where
  "np_mean xs = fdiv (np_sum xs) (real (length xs))"

definition np_std :: "float64 list \<Rightarrow> float64" where
  "np_std xs =
     (let arrmean = fdiv (np_sum xs) (real (length xs));
          x = map (\<lambda>a. fsub a arrmean) xs;
          x2 = map (\<lambda>d. fmul d d) x;
          ret = fdiv (np_sum x2) (real (length xs))
      in fsqrt ret)"

section \<open>Stage 5: the feedback log as a pandas frame\<close>

text \<open>
  A value of a text column as \<open>pandas.read_csv\<close> delivers it: text, the missing value
  (an empty field, pandas' NaN), or a number or a truth value where the column holds
  nothing but those. A row has the four columns that stage 5 reads; the similarity column
  is numeric.
\<close>

datatype cell = Str string | NA | Num real | Bool bool

record feedback_row =
  predicted_stage :: cell
  similarity :: float64
  is_correct :: cell
  corrected_stage :: cell

text \<open>
  \<open>str.lower\<close> on ASCII text: the twenty-six capital letters are replaced, every other
  character is kept.
\<close>

definition lower_char :: "char \<Rightarrow> char" where
  "lower_char c =
     (case map_of (zip ''ABCDEFGHIJKLMNOPQRSTUVWXYZ'' ''abcdefghijklmnopqrstuvwxyz'') c of
        None \<Rightarrow> c | Some d \<Rightarrow> d)"

definition lower :: "string \<Rightarrow> string" where
  "lower s = map lower_char s"

text \<open>
  \<open>fillna("")\<close> and \<open>.str.lower()\<close> on one value: the latter lower-cases text and gives the
  missing value for anything else. The \<open>.str\<close> accessor itself is refused by pandas with
  an \<open>AttributeError\<close> unless the column has no rows or holds at least one text value.
\<close>

fun fillna :: "cell \<Rightarrow> cell" where
  "fillna NA = Str []"
| "fillna c = c"

fun str_lower :: "cell \<Rightarrow> cell" where
  "str_lower (Str s) = Str (lower s)"
| "str_lower c = NA"

fun is_text :: "cell \<Rightarrow> bool" where
  "is_text (Str s) = True"
| "is_text c = False"

definition str_accessor :: "cell list \<Rightarrow> bool" where
  "str_accessor column = (column = [] \<or> (\<exists>c\<in>set column. is_text c))"

text \<open>
  The cleaning block of \<open>stage5_self_learning.py\<close>, on one row:
  \<^verbatim>\<open>df["is_correct"] = df["is_correct"].fillna("").str.lower()\<close>,
  \<^verbatim>\<open>df["predicted_stage"] = df["predicted_stage"].str.lower()\<close>,
  \<^verbatim>\<open>df["corrected_stage"] = df["corrected_stage"].fillna("").str.lower()\<close>;
  and the three uses of the accessor it makes.
\<close>

definition cleaning :: "feedback_row \<Rightarrow> feedback_row" where
  "cleaning r =
     r\<lparr>is_correct := str_lower (fillna (is_correct r)),
       predicted_stage := str_lower (predicted_stage r),
       corrected_stage := str_lower (fillna (corrected_stage r))\<rparr>"

definition cleaning_accessors :: "feedback_row list \<Rightarrow> bool" where
  "cleaning_accessors rows =
     (str_accessor (map (\<lambda>r. fillna (is_correct r)) rows) \<and>
      str_accessor (map predicted_stage rows) \<and>
      str_accessor (map (\<lambda>r. fillna (corrected_stage r)) rows))"

text \<open>One entry of the threshold table, the dictionary stored under a stage name.\<close>

record band =
  mean_similarity :: float64
  std_dev :: float64
  recommended_min :: float64
  recommended_max :: float64
  sample_size :: nat

text \<open>
  The list \<open>stage_sims\<close> that the loop body collects for one stage (\<open>stage_similarities\<close>
  in \<open>stage5_working.py\<close>, built in the same way): the similarities of the correct rows
  predicted as this stage, then those of the incorrect rows corrected to this stage.
\<close>

definition stage_sims :: "feedback_row list \<Rightarrow> feedback_row list \<Rightarrow> string \<Rightarrow> float64 list" where
  "stage_sims correct_rows incorrect_rows stage =
     map similarity (filter (\<lambda>r. predicted_stage r = Str stage) correct_rows) @
     map similarity (filter (\<lambda>r. corrected_stage r = Str stage) incorrect_rows)"

text \<open>
  The dictionary built for a non-empty list; \<open>round3\<close> is the rounding of the script.
\<close>

definition threshold_band :: "(float64 \<Rightarrow> float64) \<Rightarrow> float64 list \<Rightarrow> band" where
  "threshold_band round3 sims =
     (let mean_sim = np_mean sims; std_sim = np_std sims in
      \<lparr>mean_similarity = round3 mean_sim, std_dev = round3 std_sim,
       recommended_min = round3 (fsub mean_sim std_sim),
       recommended_max = round3 (fadd mean_sim std_sim),
       sample_size = length sims\<rparr>)"

text \<open>
  One pass of \<^verbatim>\<open>for stage in stages\<close>: the dictionary gets an entry only when the list
  of similarities is not empty.
\<close>

definition thresholds_step ::
  "(float64 \<Rightarrow> float64) \<Rightarrow> feedback_row list \<Rightarrow> feedback_row list \<Rightarrow> string \<Rightarrow>
     (string \<rightharpoonup> band) \<Rightarrow> (string \<rightharpoonup> band)" where
  "thresholds_step round3 correct_rows incorrect_rows stage thresholds =
     (let sims = stage_sims correct_rows incorrect_rows stage in
      if length sims > 0 then thresholds(stage \<mapsto> threshold_band round3 sims) else thresholds)"

definition stage_thresholds :: "feedback_row list \<Rightarrow> feedback_row list \<Rightarrow> (string \<rightharpoonup> band)" where
  "stage_thresholds correct_rows incorrect_rows =
     fold (thresholds_step py_round3 correct_rows incorrect_rows) stages Map.empty"

text \<open>
  The ways in which a stage 5 script ends before it writes a table: the three places where
  \<open>stage5_self_learning.py\<close> raises \<open>SystemExit\<close>, named after the message printed there,
  and the \<open>AttributeError\<close> of a refused \<open>.str\<close> accessor; the exception raised in each
  case, and the exit status of the process.
\<close>

datatype stop = NoFeedbackLog | FeedbackFileEmpty | AllEntriesCorrect | StrAccessorError

datatype py_exception = SystemExit int | AttributeError

definition raised :: "stop \<Rightarrow> py_exception" where
  "raised e =
     (case e of NoFeedbackLog \<Rightarrow> SystemExit 1 | FeedbackFileEmpty \<Rightarrow> SystemExit 0
      | AllEntriesCorrect \<Rightarrow> SystemExit 0 | StrAccessorError \<Rightarrow> AttributeError)"

definition exit_status :: "stop \<Rightarrow> int" where
  "exit_status e =
     (case e of NoFeedbackLog \<Rightarrow> 1 | FeedbackFileEmpty \<Rightarrow> 0 | AllEntriesCorrect \<Rightarrow> 0
      | StrAccessorError \<Rightarrow> 1)"

definition correct :: "feedback_row list \<Rightarrow> feedback_row list" where
  "correct df = filter (\<lambda>r. is_correct r = Str ''yes'') df"

definition incorrect :: "feedback_row list \<Rightarrow> feedback_row list" where
  "incorrect df = filter (\<lambda>r. is_correct r = Str ''no'') df"

text \<open>
  The script \<open>stage5_self_learning.py\<close>. Its argument is the feedback log, \<open>None\<close> when the
  file does not exist. After the cleaning it stops when the log has no row and when no row
  is marked \<open>no\<close>; otherwise it returns the dictionary \<open>stage_thresholds\<close> that it writes
  to \<open>adaptive_thresholds.json\<close>.
\<close>

definition stage5_self_learning :: "feedback_row list option \<Rightarrow> stop + (string \<rightharpoonup> band)" where
  "stage5_self_learning feedback_log =
     (case feedback_log of
        None \<Rightarrow> Inl NoFeedbackLog
      | Some rows \<Rightarrow>
          if \<not> cleaning_accessors rows then Inl StrAccessorError
          else
            (let df = map cleaning rows in
             if length df = 0 then Inl FeedbackFileEmpty
             else if length (incorrect df) = 0 then Inl AllEntriesCorrect
             else Inr (stage_thresholds (correct df) (incorrect df))))"

text \<open>
  The script \<open>stage5_working.py\<close>. Only the verdict is compared in lower case; the stage
  columns are compared as they are. There is no early exit: a missing file gives the
  built-in sample table, and every log on which the accessor applies goes through the loop.
\<close>

definition correct_predictions :: "feedback_row list \<Rightarrow> feedback_row list" where
  "correct_predictions df = filter (\<lambda>r. str_lower (is_correct r) = Str ''yes'') df"

definition incorrect_predictions :: "feedback_row list \<Rightarrow> feedback_row list" where
  "incorrect_predictions df = filter (\<lambda>r. str_lower (is_correct r) = Str ''no'') df"

definition adaptive_thresholds :: "feedback_row list \<Rightarrow> feedback_row list \<Rightarrow> (string \<rightharpoonup> band)" where
  "adaptive_thresholds correct_rows incorrect_rows =
     fold (thresholds_step np_round3 correct_rows incorrect_rows) stages Map.empty"

definition sample_thresholds :: "string \<rightharpoonup> band" where
  "sample_thresholds =
     [''foundation'' \<mapsto> \<lparr>mean_similarity = double 0.65, std_dev = double 0.08,
         recommended_min = double 0.57, recommended_max = double 0.73, sample_size = 5\<rparr>,
      ''mounting'' \<mapsto> \<lparr>mean_similarity = double 0.75, std_dev = double 0.06,
         recommended_min = double 0.69, recommended_max = double 0.81, sample_size = 4\<rparr>,
      ''installation'' \<mapsto> \<lparr>mean_similarity = double 0.88, std_dev = double 0.04,
         recommended_min = double 0.84, recommended_max = double 0.92, sample_size = 3\<rparr>]"

definition stage5_working :: "feedback_row list option \<Rightarrow> stop + (string \<rightharpoonup> band)" where
  "stage5_working feedback_file =
     (case feedback_file of
        None \<Rightarrow> Inr sample_thresholds
      | Some df \<Rightarrow>
          if \<not> str_accessor (map is_correct df) then Inl StrAccessorError
          else Inr (adaptive_thresholds (correct_predictions df) (incorrect_predictions df)))"

text \<open>The entry of a stage in the outcome of a script; none when no table was written.\<close>

definition table_entry :: "stop + (string \<rightharpoonup> band) \<Rightarrow> string \<Rightarrow> band option" where
  "table_entry outcome s = (case outcome of Inl e \<Rightarrow> None | Inr thresholds \<Rightarrow> thresholds s)"

section \<open>The learner as the specification words it\<close>

text \<open>
  These definitions follow the specification, not the source; the theorems compare them
  with the code above. A record contributes to stage \<open>s\<close> when it is confirmed and was
  predicted as \<open>s\<close>, or is corrected and was corrected to \<open>s\<close>; \<open>scores(s)\<close> collects the
  scores of the contributing records, each as often as it occurs.
\<close>

definition contributes :: "feedback_row \<Rightarrow> string \<Rightarrow> bool" where
  "contributes r s =
     (is_correct r = Str ''yes'' \<and> predicted_stage r = Str s \<or>
      is_correct r = Str ''no'' \<and> corrected_stage r = Str s)"

definition spec_scores :: "feedback_row list \<Rightarrow> string \<Rightarrow> float64 multiset" where
  "spec_scores records s =
     image_mset similarity (filter_mset (\<lambda>r. contributes r s) (mset records))"

text \<open>The verdict read without regard to case, as \<open>stage5_working.py\<close> reads it.\<close>

definition verdict_lower :: "feedback_row \<Rightarrow> feedback_row" where
  "verdict_lower r = r\<lparr>is_correct := str_lower (is_correct r)\<rparr>"

text \<open>A malformed record: marked incorrect, with an empty or missing corrected stage.\<close>

definition malformed :: "feedback_row \<Rightarrow> bool" where
  "malformed r = (str_lower (is_correct r) = Str ''no'' \<and> fillna (corrected_stage r) = Str [])"

section \<open>Sample logs\<close>

text \<open>
  The one-record log (a mounting prediction with score 0.75, marked correct) and the
  two-record log (a foundation prediction with score 0.55 corrected to mounting, and a
  mounting prediction with score 0.77 marked correct) of the specification's scenarios;
  two one-record logs, one whose score 0.5556 has four decimals and one whose score 0.6125
  lies half-way between two three-decimal numbers; a malformed row.
\<close>

definition scenario2_log :: "feedback_row list" where
  "scenario2_log =
     [\<lparr>predicted_stage = Str ''mounting'', similarity = Val 0.75, is_correct = Str ''yes'',
       corrected_stage = NA\<rparr>]"

definition scenario3_log :: "feedback_row list" where
  "scenario3_log =
     [\<lparr>predicted_stage = Str ''foundation'', similarity = double 0.55, is_correct = Str ''no'',
       corrected_stage = Str ''mounting''\<rparr>,
      \<lparr>predicted_stage = Str ''mounting'', similarity = double 0.77, is_correct = Str ''yes'',
       corrected_stage = NA\<rparr>]"

definition rounding_log :: "feedback_row list" where
  "rounding_log =
     [\<lparr>predicted_stage = Str ''foundation'', similarity = double 0.5556, is_correct = Str ''no'',
       corrected_stage = Str ''mounting''\<rparr>]"

definition tie_log :: "feedback_row list" where
  "tie_log =
     [\<lparr>predicted_stage = Str ''foundation'', similarity = double 0.6125, is_correct = Str ''no'',
       corrected_stage = Str ''mounting''\<rparr>]"

definition malformed_row :: feedback_row where
  "malformed_row =
     \<lparr>predicted_stage = Str ''foundation'', similarity = double 0.55, is_correct = Str ''no'',
      corrected_stage = NA\<rparr>"

section \<open>The classifier on finite and non-finite scores\<close>

lemma determine_stage_Finite:
  "determine_stage (Finite x) =
     (if 0.80 < x then ''installation'' else if 0.60 \<le> x then ''mounting'' else ''foundation'')"
  by (simp add: determine_stage_def float_gt_def)

lemma determine_stage_working_Finite:
  "determine_stage_working (Finite x) =
     (if 0.80 < x then ''installation'' else if 0.70 \<le> x then ''mounting'' else ''foundation'')"
  by (simp add: determine_stage_working_def float_gt_def float_ge_def)

lemma determine_stage_nonfinite:
  "determine_stage PosInf = ''installation''"
  "determine_stage NegInf = ''foundation''"
  "determine_stage NaN = ''foundation''"
  by (simp_all add: determine_stage_def float_gt_def)

lemma determine_stage_working_nonfinite:
  "determine_stage_working PosInf = ''installation''"
  "determine_stage_working NegInf = ''foundation''"
  "determine_stage_working NaN = ''foundation''"
  by (simp_all add: determine_stage_working_def float_gt_def float_ge_def)

section \<open>Evaluating the float64 operations\<close>

lemma rint_of_int [simp]: "rint (of_int k) = k"
  by (simp add: rint_def)

lemma rint_numeral [simp]: "rint (numeral n) = numeral n" "rint 0 = 0" "rint 1 = 1"
  by (simp_all add: rint_def)

lemma rint_eqI: "\<bar>y - of_int k\<bar> < 1 / 2 \<Longrightarrow> rint y = k"
proof -
  assume a: "\<bar>y - of_int k\<bar> < 1 / 2"
  show ?thesis
  proof (cases "of_int k \<le> y")
    case True
    with a have "\<lfloor>y\<rfloor> = k" by (intro floor_unique) linarith+
    with a True show ?thesis by (simp add: rint_def)
  next
    case False
    with a have "of_int (k - 1) \<le> y" "y < of_int (k - 1) + 1" by simp_all
    then have "\<lfloor>y\<rfloor> = k - 1" by (rule floor_unique)
    with a False show ?thesis by (simp add: rint_def)
  qed
qed

lemma rint_bounds: "\<lfloor>y\<rfloor> \<le> rint y" "rint y \<le> \<lfloor>y\<rfloor> + 1"
  by (simp_all add: rint_def Let_def)

lemma rint_abs_le:
  assumes "\<bar>y\<bar> \<le> of_int N"
  shows "\<bar>rint y\<bar> \<le> N"
proof -
  have lo: "- N \<le> \<lfloor>y\<rfloor>" using assms by (simp add: le_floor_iff abs_le_iff)
  have hi: "rint y \<le> N"
  proof (cases "y = of_int N")
    case True then show ?thesis by simp
  next
    case False
    with assms have "y < of_int N" by linarith
    then have "\<lfloor>y\<rfloor> < N" by (simp add: floor_less_iff)
    with rint_bounds(2) [of y] show ?thesis by linarith
  qed
  from lo rint_bounds(1) [of y] hi show ?thesis by linarith
qed

lemma exponent_eq:
  assumes "2 powi e \<le> \<bar>x\<bar>" "\<bar>x\<bar> < 2 powi (e + 1)" "- 1022 \<le> e"
  shows "exponent x = e"
proof -
  have pos: "0 < \<bar>x\<bar>" using assms(1) zero_less_power_int [of "2::real" e] by linarith
  have "(2::real) powr real_of_int e = 2 powi e" "(2::real) powr (real_of_int e + 1) = 2 powi (e + 1)"
    using powr_real_of_int' [of "2::real" e] powr_real_of_int' [of "2::real" "e + 1"] by simp_all
  with assms have "\<lfloor>log 2 \<bar>x\<bar>\<rfloor> = e"
    using floor_log_eq_powr_iff [of "\<bar>x\<bar>" 2 e] pos by simp
  with assms(3) show ?thesis by (simp add: exponent_def)
qed

lemma round_double_binade:
  assumes "2 powi e \<le> \<bar>x\<bar>" "\<bar>x\<bar> < 2 powi (e + 1)" "- 1022 \<le> e" "e < 1023"
  shows "round_double x = Val (of_int (rint (x / 2 powi (e - 52))) * 2 powi (e - 52))"
proof -
  let ?q = "(2::real) powi (e - 52)"
  have q: "0 < ?q" by simp
  have "0 < \<bar>x\<bar>" using assms(1) zero_less_power_int [of "2::real" e] by linarith
  then have x0: "x \<noteq> 0" by simp
  have ex: "exponent x = e" using assms(1-3) by (rule exponent_eq)
  have "\<bar>x / ?q\<bar> = \<bar>x\<bar> / ?q" using q by simp
  also have "\<dots> \<le> 2 powi (e + 1) / ?q" using assms(2) q by (simp add: divide_right_mono)
  also have "\<dots> = 2 powi 53" by (simp add: power_int_diff [symmetric])
  finally have "\<bar>x / ?q\<bar> \<le> of_int (2 ^ 53)" by simp
  then have "\<bar>rint (x / ?q)\<bar> \<le> 2 ^ 53" by (rule rint_abs_le)
  then have "\<bar>of_int (rint (x / ?q)) * ?q\<bar> \<le> 2 ^ 53 * ?q"
    using q by (simp add: abs_mult mult_right_mono flip: of_int_abs)
  also have "\<dots> = 2 powi (e + 1)" by (simp add: power_int_diff power_int_add)
  also have "\<dots> < 2 powi 1024" using assms(4) by (intro power_int_strict_increasing) simp_all
  finally show ?thesis using x0 ex by (simp add: round_double_def Let_def)
qed

lemma fsqrt_eqI:
  assumes "0 \<le> v" "- 1022 \<le> e" "e < 1023" "0 < k"
    and "(2 powi e)\<^sup>2 \<le> v" "v < (2 powi (e + 1))\<^sup>2"
    and "((of_int k - 1 / 2) * 2 powi (e - 52))\<^sup>2 < v"
    and "v < ((of_int k + 1 / 2) * 2 powi (e - 52))\<^sup>2"
  shows "fsqrt (Val v) = Val (of_int k * 2 powi (e - 52))"
proof -
  let ?q = "(2::real) powi (e - 52)"
  have q: "0 < ?q" by simp
  have lo: "2 powi e \<le> sqrt v" using assms(5) by (rule real_le_rsqrt)
  have hi: "sqrt v < 2 powi (e + 1)" using assms(6) by (intro real_less_lsqrt) simp_all
  have a: "(of_int k - 1 / 2) * ?q < sqrt v" using assms(7) by (rule real_less_rsqrt)
  have "0 \<le> (of_int k + 1 / 2) * ?q" using assms(4) by simp
  then have b: "sqrt v < (of_int k + 1 / 2) * ?q" using assms(8) by (intro real_less_lsqrt) simp_all
  from a q have "of_int k - 1 / 2 < sqrt v / ?q" by (simp add: pos_less_divide_eq)
  moreover from b q have "sqrt v / ?q < of_int k + 1 / 2" by (simp add: pos_divide_less_eq)
  ultimately have "\<bar>sqrt v / ?q - of_int k\<bar> < 1 / 2" by linarith
  then have "rint (sqrt v / ?q) = k" by (rule rint_eqI)
  moreover have "\<bar>sqrt v\<bar> = sqrt v" using assms(1) by simp
  ultimately show ?thesis
    using round_double_binade [of e "sqrt v"] lo hi assms(1-3) by simp
qed

declare pairwise_sum.simps [simp del] block_loop.simps [simp del]

lemma pairwise_sum_short: "length xs < 8 \<Longrightarrow> pairwise_sum xs = foldl fadd (Val 0) xs"
  by (simp add: pairwise_sum.simps [of xs])

lemma round_double_0 [simp]: "round_double 0 = Val 0"
  by (simp add: round_double_def)

text \<open>
  The roundings met when the bands of the sample logs are computed, each evaluated in its
  binade.
\<close>

lemma rd_0: "round_double (- (990791918021509 / 9007199254740992)) = Val (- (990791918021509 / 9007199254740992))"
  by (subst round_double_binade [where e = "-4"]) (simp_all add: rint_def)

lemma rd_1: "round_double (981668624816740610728986637081 / 81129638414606681695789005144064) = Val (6975175102871423 / 576460752303423488)"
  by (subst round_double_binade [where e = "-7"]) (simp_all add: rint_def)

lemma rd_2: "round_double (6975175102871423 / 576460752303423488) = Val (6975175102871423 / 576460752303423488)"
  by (subst round_double_binade [where e = "-7"]) (simp_all add: rint_def)

lemma rd_3: "round_double (6975175102871423 / 288230376151711744) = Val (6975175102871423 / 288230376151711744)"
  by (subst round_double_binade [where e = "-6"]) (simp_all add: rint_def)

lemma rd_4: "round_double (990791918021509 / 9007199254740992) = Val (990791918021509 / 9007199254740992)"
  by (subst round_double_binade [where e = "-4"]) (simp_all add: rint_def)

lemma rd_5: "round_double (11 / 100) = Val (7926335344172073 / 72057594037927936)"
  by (subst round_double_binade [where e = "-4"]) (simp_all add: rint_def)

lemma rd_6: "round_double (11 / 20) = Val (2476979795053773 / 4503599627370496)"
  by (subst round_double_binade [where e = "-1"]) (simp_all add: rint_def)

lemma rd_7: "round_double (2476979795053773 / 4503599627370496) = Val (2476979795053773 / 4503599627370496)"
  by (subst round_double_binade [where e = "-1"]) (simp_all add: rint_def)

lemma rd_8: "round_double (5004399905934095 / 9007199254740992) = Val (5004399905934095 / 9007199254740992)"
  by (subst round_double_binade [where e = "-1"]) (simp_all add: rint_def)

lemma rd_9: "round_double (1389 / 2500) = Val (5004399905934095 / 9007199254740992)"
  by (subst round_double_binade [where e = "-1"]) (simp_all add: rint_def)

lemma rd_10: "round_double (139 / 250) = Val (626000348204499 / 1125899906842624)"
  by (subst round_double_binade [where e = "-1"]) (simp_all add: rint_def)

lemma rd_11: "round_double (153 / 250) = Val (5512405943901487 / 9007199254740992)"
  by (subst round_double_binade [where e = "-1"]) (simp_all add: rint_def)

lemma rd_12: "round_double (49 / 80) = Val (2758454771764429 / 4503599627370496)"
  by (subst round_double_binade [where e = "-1"]) (simp_all add: rint_def)

lemma rd_13: "round_double (2758454771764429 / 4503599627370496) = Val (2758454771764429 / 4503599627370496)"
  by (subst round_double_binade [where e = "-1"]) (simp_all add: rint_def)

lemma rd_14: "round_double (613 / 1000) = Val (1380353285789057 / 2251799813685248)"
  by (subst round_double_binade [where e = "-1"]) (simp_all add: rint_def)

lemma rd_15: "round_double (33 / 50) = Val (5944751508129055 / 9007199254740992)"
  by (subst round_double_binade [where e = "-1"]) (simp_all add: rint_def)

lemma rd_16: "round_double (5944751508129055 / 9007199254740992) = Val (5944751508129055 / 9007199254740992)"
  by (subst round_double_binade [where e = "-1"]) (simp_all add: rint_def)

lemma rd_17: "round_double (3 / 4) = Val (3 / 4)"
  by (subst round_double_binade [where e = "-1"]) (simp_all add: rint_def)

lemma rd_18: "round_double (77 / 100) = Val (1733885856537641 / 2251799813685248)"
  by (subst round_double_binade [where e = "-1"]) (simp_all add: rint_def)

lemma rd_19: "round_double (1733885856537641 / 2251799813685248) = Val (1733885856537641 / 2251799813685248)"
  by (subst round_double_binade [where e = "-1"]) (simp_all add: rint_def)

lemma rd_20: "round_double (5944751508129055 / 4503599627370496) = Val (5944751508129055 / 4503599627370496)"
  by (subst round_double_binade [where e = "0"]) (simp_all add: rint_def)

lemma rd_21: "round_double (123848989752688625 / 1125899906842624) = Val (7740561859543039 / 70368744177664)"
  by (subst round_double_binade [where e = "6"]) (simp_all add: rint_def)

lemma rd_22: "round_double (309622474381721625 / 562949953421312) = Val (550)"
  by (subst round_double_binade [where e = "9"]) (simp_all add: rint_def)

lemma rd_23: "round_double (625549988241761875 / 1125899906842624) = Val (4887109283138765 / 8796093022208)"
  by (subst round_double_binade [where e = "9"]) (simp_all add: rint_def)

lemma rd_24: "round_double (344806846470553625 / 562949953421312) = Val (1225 / 2)"
  by (subst round_double_binade [where e = "9"]) (simp_all add: rint_def)

lemma rd_25: "round_double (743093938516131875 / 1125899906842624) = Val (660)"
  by (subst round_double_binade [where e = "9"]) (simp_all add: rint_def)

lemma rd_26: "round_double (750) = Val (750)"
  by (subst round_double_binade [where e = "9"]) (simp_all add: rint_def)

lemma rd_27: "round_double (216735732067205125 / 281474976710656) = Val (770)"
  by (subst round_double_binade [where e = "9"]) (simp_all add: rint_def)

lemmas rd = rd_0 rd_1 rd_2 rd_3 rd_4 rd_5 rd_6 rd_7 rd_8 rd_9 rd_10 rd_11 rd_12 rd_13 rd_14 rd_15 rd_16 rd_17 rd_18 rd_19 rd_20 rd_21 rd_22 rd_23 rd_24 rd_25 rd_26 rd_27

lemma sqrt_0: "fsqrt (Val (6975175102871423 / 576460752303423488)) = Val (990791918021509 / 9007199254740992)"
  by (subst fsqrt_eqI [where e = "-4" and k = 7926335344172072]) (simp_all add: power2_eq_square)

lemma doubles:
  "double 0.55 = Val (2476979795053773 / 4503599627370496)"
  "double 0.77 = Val (1733885856537641 / 2251799813685248)"
  "double 0.66 = Val (5944751508129055 / 9007199254740992)"
  "double 0.11 = Val (7926335344172073 / 72057594037927936)"
  "double 0.5556 = Val (5004399905934095 / 9007199254740992)"
  "double 0.556 = Val (626000348204499 / 1125899906842624)"
  "double 0.6125 = Val (2758454771764429 / 4503599627370496)"
  "double 0.612 = Val (5512405943901487 / 9007199254740992)"
  "double 0.613 = Val (1380353285789057 / 2251799813685248)"
  "double 0.75 = Val (3 / 4)"
  by (simp_all add: double_def rd)

lemma doubles_differ: "double 0.556 \<noteq> double 0.5556"
  by (simp only: doubles) simp

lemma np_single:
  assumes "round_double x = Val x"
  shows "np_mean [Val x] = Val x" "np_std [Val x] = Val 0"
  using assms
  by (simp_all add: np_mean_def np_std_def np_sum_def pairwise_sum_short fsub_def Let_def)

lemma band_single:
  assumes "round_double x = Val x"
  shows "threshold_band f [Val x] =
     \<lparr>mean_similarity = f (Val x), std_dev = f (Val 0), recommended_min = f (Val x),
      recommended_max = f (Val x), sample_size = 1\<rparr>"
  using assms by (simp add: threshold_band_def np_single [OF assms] fsub_def Let_def)

lemma round3_0 [simp]: "py_round3 (Val 0) = Val 0" "np_round3 (Val 0) = Val 0"
  by (simp_all add: np_round3_def)

lemma mean_scenario3:
  "np_mean [Val (1733885856537641 / 2251799813685248), Val (2476979795053773 / 4503599627370496)] = Val (5944751508129055 / 9007199254740992)"
  by (simp add: np_mean_def np_sum_def pairwise_sum_short rd)

lemma std_scenario3:
  "np_std [Val (1733885856537641 / 2251799813685248), Val (2476979795053773 / 4503599627370496)] = Val (990791918021509 / 9007199254740992)"
  by (simp add: np_std_def np_sum_def pairwise_sum_short fsub_def Let_def rd sqrt_0 del: fsqrt.simps)

lemma band_scenario3:
  "threshold_band py_round3 [double 0.77, double 0.55] =
     \<lparr>mean_similarity = double 0.66, std_dev = double 0.11, recommended_min = double 0.55,
      recommended_max = double 0.77, sample_size = 2\<rparr>"
  "threshold_band np_round3 [double 0.77, double 0.55] =
     \<lparr>mean_similarity = double 0.66, std_dev = double 0.11, recommended_min = double 0.55,
      recommended_max = double 0.77, sample_size = 2\<rparr>"
  by (simp_all only: doubles)
    (simp_all add: threshold_band_def mean_scenario3 std_scenario3 fsub_def np_round3_def
      rd rint_def Let_def)

lemma band_rounding:
  "threshold_band py_round3 [double 0.5556] =
     \<lparr>mean_similarity = double 0.556, std_dev = Val 0, recommended_min = double 0.556,
      recommended_max = double 0.556, sample_size = 1\<rparr>"
  "threshold_band np_round3 [double 0.5556] =
     \<lparr>mean_similarity = double 0.556, std_dev = Val 0, recommended_min = double 0.556,
      recommended_max = double 0.556, sample_size = 1\<rparr>"
  by (simp_all only: doubles) (simp_all add: band_single rd np_round3_def rint_def)

lemma band_tie:
  "threshold_band py_round3 [double 0.6125] =
     \<lparr>mean_similarity = double 0.613, std_dev = Val 0, recommended_min = double 0.613,
      recommended_max = double 0.613, sample_size = 1\<rparr>"
  "threshold_band np_round3 [double 0.6125] =
     \<lparr>mean_similarity = double 0.612, std_dev = Val 0, recommended_min = double 0.612,
      recommended_max = double 0.612, sample_size = 1\<rparr>"
  by (simp_all only: doubles) (simp_all add: band_single rd np_round3_def rint_def)

lemma band_scenario2:
  "threshold_band py_round3 [Val 0.75] =
     \<lparr>mean_similarity = Val 0.75, std_dev = Val 0, recommended_min = Val 0.75,
      recommended_max = Val 0.75, sample_size = 1\<rparr>"
  "threshold_band np_round3 [Val 0.75] =
     \<lparr>mean_similarity = Val 0.75, std_dev = Val 0, recommended_min = Val 0.75,
      recommended_max = Val 0.75, sample_size = 1\<rparr>"
  by (simp_all add: band_single rd np_round3_def rint_def)

section \<open>Facts about the learner\<close>

lemma lower_yes_no: "lower ''yes'' = ''yes''" "lower ''no'' = ''no''" "lower [] = []"
  "lower ''foundation'' = ''foundation''" "lower ''mounting'' = ''mounting''"
  "lower ''installation'' = ''installation''"
  by (simp_all add: lower_def lower_char_def)

lemma stage_thresholds_apply:
  "stage_thresholds c i s =
     (if s \<in> set stages \<and> stage_sims c i s \<noteq> []
      then Some (threshold_band py_round3 (stage_sims c i s)) else None)"
  by (simp add: stage_thresholds_def stages_def thresholds_step_def Let_def)

lemma adaptive_thresholds_apply:
  "adaptive_thresholds c i s =
     (if s \<in> set stages \<and> stage_sims c i s \<noteq> []
      then Some (threshold_band np_round3 (stage_sims c i s)) else None)"
  by (simp add: adaptive_thresholds_def stages_def thresholds_step_def Let_def)

lemma filter_mset_disjoint_union:
  "(\<And>x. \<not> (P x \<and> Q x)) \<Longrightarrow>
     filter_mset P M + filter_mset Q M = filter_mset (\<lambda>x. P x \<or> Q x) M"
  by (induction M) auto

lemma mset_stage_sims:
  "mset (stage_sims (correct df) (incorrect df) s) = spec_scores df s"
proof -
  let ?P = "\<lambda>r. is_correct r = Str ''yes'' \<and> predicted_stage r = Str s"
  let ?Q = "\<lambda>r. is_correct r = Str ''no'' \<and> corrected_stage r = Str s"
  have "mset (stage_sims (correct df) (incorrect df) s) =
      image_mset similarity (filter_mset ?P (mset df) + filter_mset ?Q (mset df))"
    by (simp add: stage_sims_def correct_def incorrect_def filter_filter_mset conj_commute)
  also have "filter_mset ?P (mset df) + filter_mset ?Q (mset df) =
      filter_mset (\<lambda>r. ?P r \<or> ?Q r) (mset df)"
    by (rule filter_mset_disjoint_union) simp
  finally show ?thesis
    by (simp add: spec_scores_def contributes_def)
qed

lemma correct_predictions_eq:
  "map verdict_lower (correct_predictions df) = correct (map verdict_lower df)"
  by (induction df) (auto simp: correct_predictions_def correct_def verdict_lower_def)

lemma incorrect_predictions_eq:
  "map verdict_lower (incorrect_predictions df) = incorrect (map verdict_lower df)"
  by (induction df) (auto simp: incorrect_predictions_def incorrect_def verdict_lower_def)

lemma stage_sims_verdict_lower:
  "stage_sims (map verdict_lower c) (map verdict_lower i) s = stage_sims c i s"
  by (simp add: stage_sims_def filter_map o_def verdict_lower_def)

lemma mset_stage_sims_working:
  "mset (stage_sims (correct_predictions df) (incorrect_predictions df) s) =
     spec_scores (map verdict_lower df) s"
  using mset_stage_sims [of "map verdict_lower df" s]
  by (simp add: correct_predictions_eq [symmetric] incorrect_predictions_eq [symmetric]
      stage_sims_verdict_lower)

lemma self_learning_Some:
  "stage5_self_learning (Some rows) =
     (if \<not> cleaning_accessors rows then Inl StrAccessorError
      else if rows = [] then Inl FeedbackFileEmpty
      else if incorrect (map cleaning rows) = [] then Inl AllEntriesCorrect
      else Inr (stage_thresholds (correct (map cleaning rows)) (incorrect (map cleaning rows))))"
  by (simp add: stage5_self_learning_def Let_def)

lemma working_Some:
  "stage5_working (Some df) =
     (if \<not> str_accessor (map is_correct df) then Inl StrAccessorError
      else Inr (adaptive_thresholds (correct_predictions df) (incorrect_predictions df)))"
  by (simp add: stage5_working_def)

lemma self_learning_Inr:
  "(stage5_self_learning (Some rows) = Inr T) =
     (cleaning_accessors rows \<and> incorrect (map cleaning rows) \<noteq> [] \<and>
      T = stage_thresholds (correct (map cleaning rows)) (incorrect (map cleaning rows)))"
  by (auto simp add: self_learning_Some incorrect_def)

lemma working_Inr:
  "(stage5_working (Some df) = Inr T) =
     (str_accessor (map is_correct df) \<and>
      T = adaptive_thresholds (correct_predictions df) (incorrect_predictions df))"
  by (auto simp add: working_Some)

lemma scenario2_run:
  "cleaning_accessors scenario2_log" "str_accessor (map is_correct scenario2_log)"
  "scenario2_log \<noteq> []"
  "incorrect (map cleaning scenario2_log) = []"
  "stage_sims (correct_predictions scenario2_log) (incorrect_predictions scenario2_log) s =
     (if s = ''mounting'' then [Val 0.75] else [])"
  by (auto simp add: scenario2_log_def cleaning_accessors_def str_accessor_def cleaning_def
      lower_yes_no incorrect_def correct_predictions_def incorrect_predictions_def stage_sims_def)

lemma scenario3_run:
  "cleaning_accessors scenario3_log" "str_accessor (map is_correct scenario3_log)"
  "incorrect (map cleaning scenario3_log) \<noteq> []"
  "stage_sims (correct (map cleaning scenario3_log)) (incorrect (map cleaning scenario3_log)) s =
     (if s = ''mounting'' then [double 0.77, double 0.55] else [])"
  "stage_sims (correct_predictions scenario3_log) (incorrect_predictions scenario3_log) s =
     (if s = ''mounting'' then [double 0.77, double 0.55] else [])"
  by (auto simp add: scenario3_log_def cleaning_accessors_def str_accessor_def cleaning_def
      lower_yes_no correct_def incorrect_def correct_predictions_def incorrect_predictions_def
      stage_sims_def)

lemma one_row_run:
  assumes "rows = [\<lparr>predicted_stage = Str ''foundation'', similarity = x, is_correct = Str ''no'',
       corrected_stage = Str ''mounting''\<rparr>]"
  shows "cleaning_accessors rows" "str_accessor (map is_correct rows)"
    "incorrect (map cleaning rows) \<noteq> []"
    "stage_sims (correct (map cleaning rows)) (incorrect (map cleaning rows)) s =
       (if s = ''mounting'' then [x] else [])"
    "stage_sims (correct_predictions rows) (incorrect_predictions rows) s =
       (if s = ''mounting'' then [x] else [])"
  by (auto simp add: assms cleaning_accessors_def str_accessor_def cleaning_def
      lower_yes_no correct_def incorrect_def correct_predictions_def incorrect_predictions_def
      stage_sims_def)

lemma one_sample_tables:
  assumes "\<And>s. stage_sims c i s = (if s = ''mounting'' then xs else [])" and "xs \<noteq> []"
  shows "stage_thresholds c i = [''mounting'' \<mapsto> threshold_band py_round3 xs]"
    "adaptive_thresholds c i = [''mounting'' \<mapsto> threshold_band np_round3 xs]"
  using assms(2)
  by (auto simp add: fun_eq_iff stage_thresholds_apply adaptive_thresholds_apply assms(1) stages_def)

lemma scenario3_tables:
  "stage5_self_learning (Some scenario3_log) =
     Inr [''mounting'' \<mapsto> \<lparr>mean_similarity = double 0.66, std_dev = double 0.11,
            recommended_min = double 0.55, recommended_max = double 0.77, sample_size = 2\<rparr>]"
  "stage5_working (Some scenario3_log) =
     Inr [''mounting'' \<mapsto> \<lparr>mean_similarity = double 0.66, std_dev = double 0.11,
            recommended_min = double 0.55, recommended_max = double 0.77, sample_size = 2\<rparr>]"
proof -
  note t = one_sample_tables [of _ _ "[double 0.77, double 0.55]"]
  have ne: "scenario3_log \<noteq> []" by (simp add: scenario3_log_def)
  show "stage5_self_learning (Some scenario3_log) =
     Inr [''mounting'' \<mapsto> \<lparr>mean_similarity = double 0.66, std_dev = double 0.11,
            recommended_min = double 0.55, recommended_max = double 0.77, sample_size = 2\<rparr>]"
    using scenario3_run(1,3) ne
    by (simp only: self_learning_Some t(1) [OF scenario3_run(4)] band_scenario3 simp_thms if_False
        list.distinct)
  show "stage5_working (Some scenario3_log) =
     Inr [''mounting'' \<mapsto> \<lparr>mean_similarity = double 0.66, std_dev = double 0.11,
            recommended_min = double 0.55, recommended_max = double 0.77, sample_size = 2\<rparr>]"
    using scenario3_run(2)
    by (simp only: working_Some t(2) [OF scenario3_run(5)] band_scenario3 simp_thms if_False
        list.distinct)
qed

lemma one_row_tables:
  assumes "rows = [\<lparr>predicted_stage = Str ''foundation'', similarity = x, is_correct = Str ''no'',
       corrected_stage = Str ''mounting''\<rparr>]"
  shows "stage5_self_learning (Some rows) = Inr [''mounting'' \<mapsto> threshold_band py_round3 [x]]"
    "stage5_working (Some rows) = Inr [''mounting'' \<mapsto> threshold_band np_round3 [x]]"
proof -
  note r = one_row_run [OF assms]
  note t = one_sample_tables [of _ _ "[x]"]
  have ne: "rows \<noteq> []" by (simp add: assms)
  show "stage5_self_learning (Some rows) = Inr [''mounting'' \<mapsto> threshold_band py_round3 [x]]"
    using r(1,3) ne
    by (simp only: self_learning_Some t(1) [OF r(4)] simp_thms if_False list.distinct)
  show "stage5_working (Some rows) = Inr [''mounting'' \<mapsto> threshold_band np_round3 [x]]"
    using r(2)
    by (simp only: working_Some t(2) [OF r(5)] simp_thms if_False list.distinct)
qed

lemma malformed_cleaning:
  assumes "malformed m"
  shows "is_correct (cleaning m) = Str ''no''" "corrected_stage (cleaning m) = Str []"
    "is_text (is_correct m)" "is_text (fillna (is_correct m))"
    "is_text (fillna (corrected_stage m))" "corrected_stage m \<noteq> Str (c # cs)"
  using assms
  by (cases "is_correct m"; cases "corrected_stage m";
      simp add: malformed_def cleaning_def lower_yes_no)+

lemma stages_nonempty: "s \<in> set stages \<Longrightarrow> \<exists>c cs. s = c # cs"
  by (auto simp add: stages_def)

lemma malformed_sims_self:
  assumes "malformed m" and "s \<in> set stages"
  shows "stage_sims (correct (map cleaning (xs @ m # ys))) (incorrect (map cleaning (xs @ m # ys))) s =
     stage_sims (correct (map cleaning (xs @ ys))) (incorrect (map cleaning (xs @ ys))) s"
  using malformed_cleaning(1,2) [OF assms(1)] stages_nonempty [OF assms(2)]
  by (auto simp add: stage_sims_def correct_def incorrect_def)

lemma malformed_sims_working:
  assumes "malformed m" and "s \<in> set stages"
  shows "stage_sims (correct_predictions (xs @ m # ys)) (incorrect_predictions (xs @ m # ys)) s =
     stage_sims (correct_predictions (xs @ ys)) (incorrect_predictions (xs @ ys)) s"
  using assms(1) malformed_cleaning(6) [OF assms(1)] stages_nonempty [OF assms(2)]
  by (auto simp add: stage_sims_def correct_predictions_def incorrect_predictions_def malformed_def)

lemma stage_thresholds_cong:
  assumes "\<And>s. s \<in> set stages \<Longrightarrow> stage_sims c i s = stage_sims c' i' s"
  shows "stage_thresholds c i = stage_thresholds c' i'"
    "adaptive_thresholds c i = adaptive_thresholds c' i'"
proof -
  show "stage_thresholds c i = stage_thresholds c' i'"
  proof (rule ext)
    fix s
    show "stage_thresholds c i s = stage_thresholds c' i' s"
      by (cases "s \<in> set stages") (simp_all add: stage_thresholds_apply assms)
  qed
  show "adaptive_thresholds c i = adaptive_thresholds c' i'"
  proof (rule ext)
    fix s
    show "adaptive_thresholds c i s = adaptive_thresholds c' i' s"
      by (cases "s \<in> set stages") (simp_all add: adaptive_thresholds_apply assms)
  qed
qed

lemma str_accessor_insert:
  "str_accessor (map f (xs @ ys)) \<Longrightarrow> xs @ ys \<noteq> [] \<Longrightarrow> str_accessor (map f (xs @ m # ys))"
  by (auto simp add: str_accessor_def)

lemma str_accessor_text: "is_text (f m) \<Longrightarrow> str_accessor (map f (xs @ m # ys))"
  by (auto simp add: str_accessor_def)

section \<open>The claims\<close>



text \<open>
  C2, where the claim as worded fails. The stored mean is rounded to three decimals: for
  the one-record log whose only score is 0.5556 (marked incorrect, corrected to mounting)
  the mounting sample is that one score, its mean is 0.5556, and both scripts store 0.556.
\<close>

theorem rounded_mean_counterexample:
  "stage5_self_learning (Some rounding_log) =
     Inr [''mounting'' \<mapsto> \<lparr>mean_similarity = double 0.556, std_dev = Val 0,
            recommended_min = double 0.556, recommended_max = double 0.556, sample_size = 1\<rparr>] \<and>
   stage5_working (Some rounding_log) =
     Inr [''mounting'' \<mapsto> \<lparr>mean_similarity = double 0.556, std_dev = Val 0,
            recommended_min = double 0.556, recommended_max = double 0.556, sample_size = 1\<rparr>] \<and>
   stage_sims (correct (map cleaning rounding_log)) (incorrect (map cleaning rounding_log))
     ''mounting'' = [double 0.5556] \<and>
   np_mean [double 0.5556] = double 0.5556 \<and> double 0.556 \<noteq> double 0.5556"
proof -
  have m: "np_mean [double 0.5556] = double 0.5556"
    by (simp only: doubles) (simp add: np_single rd)
  show ?thesis
    using one_row_tables [OF rounding_log_def] one_row_run(4) [OF rounding_log_def, of "''mounting''"]
      m doubles_differ
    by (simp only: band_rounding if_True simp_thms)
qed

text \<open>
  C2, as the code has it. \<open>stage5_self_learning.py\<close> reaches its loop exactly when
  pandas accepts the three \<open>.str\<close> accessors of the cleaning and the cleaned log has a row
  marked \<open>no\<close>; \<open>stage5_working.py\<close> exactly when pandas accepts the accessor on the
  verdict column. A script that reaches its loop has, for each of the three stages, a
  sample that is, as a multiset, the scores of the records marked correct and predicted as
  that stage together with the scores of the records marked incorrect and corrected to
  that stage, the verdict and the stage names read as the script normalises them
  (\<open>stage5_self_learning.py\<close> lower-cases the verdict and both stage columns,
  \<open>stage5_working.py\<close> the verdict only). Its table has a band for the stage exactly when
  the sample is not empty, and the band holds numpy's float64 mean of the sample, numpy's
  population standard deviation, and the float difference and sum of the two, each rounded
  to three decimals by the script's own \<open>round\<close>, and the number of samples. For the
  two-record log the mounting sample is 0.77 and 0.55 and both scripts store mean 0.66,
  deviation 0.11, band from 0.55 to 0.77 and sample size 2. The two roundings differ on
  ties: for the single score 0.6125 \<open>stage5_self_learning.py\<close> stores 0.613 and
  \<open>stage5_working.py\<close> stores 0.612.
\<close>

theorem threshold_learner_bands:
  "(stage5_self_learning (Some rows) = Inr T \<longrightarrow>
      (\<forall>s\<in>set stages.
         mset (stage_sims (correct (map cleaning rows)) (incorrect (map cleaning rows)) s) =
           spec_scores (map cleaning rows) s \<and>
         T s =
           (if spec_scores (map cleaning rows) s = {#} then None
            else Some (threshold_band py_round3
              (stage_sims (correct (map cleaning rows)) (incorrect (map cleaning rows)) s))))) \<and>
   ((\<exists>T'. stage5_self_learning (Some rows) = Inr T') =
      (cleaning_accessors rows \<and> incorrect (map cleaning rows) \<noteq> [])) \<and>
   (stage5_working (Some df) = Inr W \<longrightarrow>
      (\<forall>s\<in>set stages.
         mset (stage_sims (correct_predictions df) (incorrect_predictions df) s) =
           spec_scores (map verdict_lower df) s \<and>
         W s =
           (if spec_scores (map verdict_lower df) s = {#} then None
            else Some (threshold_band np_round3
              (stage_sims (correct_predictions df) (incorrect_predictions df) s))))) \<and>
   ((\<exists>W'. stage5_working (Some df) = Inr W') = str_accessor (map is_correct df)) \<and>
   threshold_band round3 sims =
     \<lparr>mean_similarity = round3 (np_mean sims), std_dev = round3 (np_std sims),
      recommended_min = round3 (fsub (np_mean sims) (np_std sims)),
      recommended_max = round3 (fadd (np_mean sims) (np_std sims)),
      sample_size = size (mset sims)\<rparr> \<and>
   stage_sims (correct (map cleaning scenario3_log)) (incorrect (map cleaning scenario3_log))
     ''mounting'' = [double 0.77, double 0.55] \<and>
   stage5_self_learning (Some scenario3_log) =
     Inr [''mounting'' \<mapsto> \<lparr>mean_similarity = double 0.66, std_dev = double 0.11,
            recommended_min = double 0.55, recommended_max = double 0.77, sample_size = 2\<rparr>] \<and>
   stage5_working (Some scenario3_log) =
     Inr [''mounting'' \<mapsto> \<lparr>mean_similarity = double 0.66, std_dev = double 0.11,
            recommended_min = double 0.55, recommended_max = double 0.77, sample_size = 2\<rparr>] \<and>
   stage5_self_learning (Some tie_log) =
     Inr [''mounting'' \<mapsto> \<lparr>mean_similarity = double 0.613, std_dev = Val 0,
            recommended_min = double 0.613, recommended_max = double 0.613, sample_size = 1\<rparr>] \<and>
   stage5_working (Some tie_log) =
     Inr [''mounting'' \<mapsto> \<lparr>mean_similarity = double 0.612, std_dev = Val 0,
            recommended_min = double 0.612, recommended_max = double 0.612, sample_size = 1\<rparr>]"
proof -
  have a: "stage5_self_learning (Some rows) = Inr T \<longrightarrow>
      (\<forall>s\<in>set stages.
         mset (stage_sims (correct (map cleaning rows)) (incorrect (map cleaning rows)) s) =
           spec_scores (map cleaning rows) s \<and>
         T s =
           (if spec_scores (map cleaning rows) s = {#} then None
            else Some (threshold_band py_round3
              (stage_sims (correct (map cleaning rows)) (incorrect (map cleaning rows)) s))))"
  proof (intro impI ballI conjI)
    fix s assume run: "stage5_self_learning (Some rows) = Inr T" and s: "s \<in> set stages"
    let ?sims = "stage_sims (correct (map cleaning rows)) (incorrect (map cleaning rows)) s"
    show m: "mset ?sims = spec_scores (map cleaning rows) s"
      by (rule mset_stage_sims)
    from run have "T = stage_thresholds (correct (map cleaning rows)) (incorrect (map cleaning rows))"
      by (simp add: self_learning_Inr)
    then have "T s = (if ?sims = [] then None else Some (threshold_band py_round3 ?sims))"
      using s by (simp add: stage_thresholds_apply)
    moreover have "(?sims = []) = (spec_scores (map cleaning rows) s = {#})"
      using m by (metis mset_zero_iff)
    ultimately show "T s =
        (if spec_scores (map cleaning rows) s = {#} then None
         else Some (threshold_band py_round3 ?sims))"
      by simp
  qed
  have b: "(\<exists>T'. stage5_self_learning (Some rows) = Inr T') =
      (cleaning_accessors rows \<and> incorrect (map cleaning rows) \<noteq> [])"
    by (simp add: self_learning_Inr)
  have c: "stage5_working (Some df) = Inr W \<longrightarrow>
      (\<forall>s\<in>set stages.
         mset (stage_sims (correct_predictions df) (incorrect_predictions df) s) =
           spec_scores (map verdict_lower df) s \<and>
         W s =
           (if spec_scores (map verdict_lower df) s = {#} then None
            else Some (threshold_band np_round3
              (stage_sims (correct_predictions df) (incorrect_predictions df) s))))"
  proof (intro impI ballI conjI)
    fix s assume run: "stage5_working (Some df) = Inr W" and s: "s \<in> set stages"
    let ?sims = "stage_sims (correct_predictions df) (incorrect_predictions df) s"
    show m: "mset ?sims = spec_scores (map verdict_lower df) s"
      by (rule mset_stage_sims_working)
    from run have "W = adaptive_thresholds (correct_predictions df) (incorrect_predictions df)"
      by (simp add: working_Inr)
    then have "W s = (if ?sims = [] then None else Some (threshold_band np_round3 ?sims))"
      using s by (simp add: adaptive_thresholds_apply)
    moreover have "(?sims = []) = (spec_scores (map verdict_lower df) s = {#})"
      using m by (metis mset_zero_iff)
    ultimately show "W s =
        (if spec_scores (map verdict_lower df) s = {#} then None
         else Some (threshold_band np_round3 ?sims))"
      by simp
  qed
  have d: "(\<exists>W'. stage5_working (Some df) = Inr W') = str_accessor (map is_correct df)"
    by (simp add: working_Inr)
  have e: "threshold_band round3 sims =
     \<lparr>mean_similarity = round3 (np_mean sims), std_dev = round3 (np_std sims),
      recommended_min = round3 (fsub (np_mean sims) (np_std sims)),
      recommended_max = round3 (fadd (np_mean sims) (np_std sims)),
      sample_size = size (mset sims)\<rparr>"
    by (simp add: threshold_band_def Let_def)
  have f: "stage_sims (correct (map cleaning scenario3_log)) (incorrect (map cleaning scenario3_log))
     ''mounting'' = [double 0.77, double 0.55]"
    by (simp only: scenario3_run(4) if_True simp_thms)
  note g = one_row_tables [OF tie_log_def, unfolded band_tie]
  show ?thesis
    using a b c d e f scenario3_tables g by (intro conjI)
qed

theorem threshold_learner_bands_witness:
  "stage5_self_learning (Some scenario3_log) =
     Inr (stage_thresholds (correct (map cleaning scenario3_log))
            (incorrect (map cleaning scenario3_log))) \<and>
   spec_scores (map cleaning scenario3_log) ''mounting'' = {#double 0.77, double 0.55#} \<and>
   stage_thresholds (correct (map cleaning scenario3_log)) (incorrect (map cleaning scenario3_log))
     ''mounting'' = Some (threshold_band py_round3 [double 0.77, double 0.55]) \<and>
   spec_scores (map cleaning scenario3_log) ''foundation'' = {#} \<and>
   stage_thresholds (correct (map cleaning scenario3_log)) (incorrect (map cleaning scenario3_log))
     ''foundation'' = None \<and>
   stage5_working (Some scenario3_log) =
     Inr (adaptive_thresholds (correct_predictions scenario3_log)
            (incorrect_predictions scenario3_log)) \<and>
   adaptive_thresholds (correct_predictions scenario3_log) (incorrect_predictions scenario3_log)
     ''mounting'' = Some (threshold_band np_round3 [double 0.77, double 0.55])"
proof -
  let ?T = "stage_thresholds (correct (map cleaning scenario3_log))
      (incorrect (map cleaning scenario3_log))"
  let ?W = "adaptive_thresholds (correct_predictions scenario3_log)
      (incorrect_predictions scenario3_log)"
  have run: "stage5_self_learning (Some scenario3_log) = Inr ?T"
    using scenario3_run(1,3) by (simp add: self_learning_Inr)
  have run_w: "stage5_working (Some scenario3_log) = Inr ?W"
    using scenario3_run(2) by (simp add: working_Inr)
  have st: "''mounting'' \<in> set stages" "''foundation'' \<in> set stages"
    by (simp_all add: stages_def)
  note inst = threshold_learner_bands [of scenario3_log ?T scenario3_log ?W]
  from inst run
  have all: "\<forall>s\<in>set stages.
      mset (stage_sims (correct (map cleaning scenario3_log)) (incorrect (map cleaning scenario3_log)) s) =
        spec_scores (map cleaning scenario3_log) s \<and>
      ?T s = (if spec_scores (map cleaning scenario3_log) s = {#} then None
              else Some (threshold_band py_round3
                (stage_sims (correct (map cleaning scenario3_log))
                   (incorrect (map cleaning scenario3_log)) s)))"
    by blast
  from inst run_w
  have all_w: "\<forall>s\<in>set stages.
      mset (stage_sims (correct_predictions scenario3_log) (incorrect_predictions scenario3_log) s) =
        spec_scores (map verdict_lower scenario3_log) s \<and>
      ?W s = (if spec_scores (map verdict_lower scenario3_log) s = {#} then None
              else Some (threshold_band np_round3
                (stage_sims (correct_predictions scenario3_log)
                   (incorrect_predictions scenario3_log) s)))"
    by blast
  from all st(1) have m: "spec_scores (map cleaning scenario3_log) ''mounting'' =
      {#double 0.77, double 0.55#}"
    "?T ''mounting'' = Some (threshold_band py_round3 [double 0.77, double 0.55])"
    by (auto simp add: scenario3_run(4) dest!: bspec [where x = "''mounting''"] split: if_splits)
  from all st(2) have f: "spec_scores (map cleaning scenario3_log) ''foundation'' = {#}"
    "?T ''foundation'' = None"
    by (auto simp add: scenario3_run(4) dest!: bspec [where x = "''foundation''"] split: if_splits)
  from all_w st(1) have w: "?W ''mounting'' = Some (threshold_band np_round3 [double 0.77, double 0.55])"
    by (auto simp add: scenario3_run(5) dest!: bspec [where x = "''mounting''"] split: if_splits)
  show ?thesis using run m f run_w w by (intro conjI)
qed

text \<open>
  C3, where the claim as worded fails. On the one-record log, whose only record is marked
  correct, \<open>stage5_self_learning.py\<close> stops at its guard "all feedback entries are correct"
  and produces no table.
\<close>

theorem all_correct_log_counterexample:
  "stage5_self_learning (Some scenario2_log) = Inl AllEntriesCorrect"
  using scenario2_run(1,3,4) by (simp add: self_learning_Some)

text \<open>
  C3, as the code has it. On the one-record log \<open>stage5_working.py\<close> yields the table
  with exactly one entry, the mounting band with mean 0.75, deviation 0, minimum and
  maximum 0.75 and sample size 1, and no entry for foundation or installation;
  \<open>stage5_self_learning.py\<close> stops with exit status 0 before computing any band.
\<close>

theorem all_correct_log:
  "stage5_working (Some scenario2_log) =
     Inr [''mounting'' \<mapsto> \<lparr>mean_similarity = Val 0.75, std_dev = Val 0,
            recommended_min = Val 0.75, recommended_max = Val 0.75, sample_size = 1\<rparr>] \<and>
   table_entry (stage5_working (Some scenario2_log)) ''foundation'' = None \<and>
   table_entry (stage5_working (Some scenario2_log)) ''installation'' = None \<and>
   stage5_self_learning (Some scenario2_log) = Inl AllEntriesCorrect \<and>
   exit_status AllEntriesCorrect = 0"
proof -
  have t: "adaptive_thresholds (correct_predictions scenario2_log) (incorrect_predictions scenario2_log) =
      [''mounting'' \<mapsto> threshold_band np_round3 [Val 0.75]]"
    by (rule one_sample_tables(2) [OF scenario2_run(5)]) simp
  have w: "stage5_working (Some scenario2_log) =
     Inr [''mounting'' \<mapsto> \<lparr>mean_similarity = Val 0.75, std_dev = Val 0,
            recommended_min = Val 0.75, recommended_max = Val 0.75, sample_size = 1\<rparr>]"
    using scenario2_run(2) by (simp only: working_Some t band_scenario2 simp_thms if_False)
  have n: "table_entry (stage5_working (Some scenario2_log)) ''foundation'' = None"
    "table_entry (stage5_working (Some scenario2_log)) ''installation'' = None"
    by (simp_all add: w table_entry_def)
  have e: "stage5_self_learning (Some scenario2_log) = Inl AllEntriesCorrect"
    using scenario2_run(1,3,4) by (simp add: self_learning_Some)
  show ?thesis
    using w n e by (simp add: exit_status_def)
qed

text \<open>
  C4, where the claim as worded fails. On the empty feedback log
  \<open>stage5_self_learning.py\<close> raises \<open>SystemExit(0)\<close>: the process ends, with the status of
  a success, and no error value reaches a caller. \<open>stage5_working.py\<close> does not fail on
  the empty log at all: it writes an empty table.
\<close>

theorem empty_log_exit_counterexample:
  "stage5_self_learning (Some []) = Inl FeedbackFileEmpty \<and>
   raised FeedbackFileEmpty = SystemExit 0 \<and>
   stage5_working (Some []) = Inr Map.empty"
  by (simp add: self_learning_Some working_Some cleaning_accessors_def str_accessor_def raised_def
      adaptive_thresholds_apply fun_eq_iff stage_sims_def correct_predictions_def
      incorrect_predictions_def)

text \<open>
  C4, as the code has it. \<open>stage5_self_learning.py\<close> stops at "feedback file is empty"
  for the empty log and for no other log; it does so by raising \<open>SystemExit(0)\<close>, which
  ends the process with exit status 0, and it writes no threshold table.
  \<open>stage5_working.py\<close> has no such exit: on the empty log it writes the empty table.
\<close>

theorem empty_feedback_log:
  "(stage5_self_learning (Some rows) = Inl FeedbackFileEmpty) = (rows = []) \<and>
   raised FeedbackFileEmpty = SystemExit 0 \<and> exit_status FeedbackFileEmpty = 0 \<and>
   stage5_self_learning (Some []) \<noteq> Inr T \<and>
   stage5_working (Some []) = Inr Map.empty \<and>
   stage5_working (Some df) \<noteq> Inl FeedbackFileEmpty"
proof -
  have acc: "cleaning_accessors []"
    by (simp add: cleaning_accessors_def str_accessor_def)
  have a: "(stage5_self_learning (Some rows) = Inl FeedbackFileEmpty) = (rows = [])"
    using acc by (auto simp add: self_learning_Some)
  have b: "stage5_self_learning (Some []) \<noteq> Inr T"
    using acc by (simp add: self_learning_Some)
  have c: "stage5_working (Some []) = Inr Map.empty"
    by (simp add: working_Some str_accessor_def adaptive_thresholds_apply fun_eq_iff
        stage_sims_def correct_predictions_def incorrect_predictions_def)
  have d: "stage5_working (Some df) \<noteq> Inl FeedbackFileEmpty"
    by (simp add: working_Some)
  show ?thesis
    using a b c d by (simp add: raised_def exit_status_def)
qed

text \<open>
  C5, where the claim as worded fails. On NaN both classifiers return the label
  foundation, one of the three stage names; nothing is raised.
\<close>

theorem determine_stage_NaN_counterexample:
  "determine_stage NaN = ''foundation'' \<and> determine_stage_working NaN = ''foundation'' \<and>
   ''foundation'' \<in> set stages"
  by (simp add: determine_stage_nonfinite determine_stage_working_nonfinite stages_def)

text \<open>
  C5, as the code has it. Neither classifier checks its argument: on a score that is not
  finite it returns a label and signals nothing. Positive infinity is an installation;
  negative infinity and NaN fail both comparisons and are a foundation.
\<close>

theorem determine_stage_not_finite:
  "\<not> is_finite a \<Longrightarrow>
     determine_stage a = (if a = PosInf then ''installation'' else ''foundation'') \<and>
     determine_stage_working a = (if a = PosInf then ''installation'' else ''foundation'')"
  by (cases a) (simp_all add: determine_stage_nonfinite determine_stage_working_nonfinite)

theorem determine_stage_not_finite_witness:
  "\<not> is_finite NaN \<and> determine_stage NaN = ''foundation'' \<and>
   determine_stage_working NaN = ''foundation'' \<and>
   \<not> is_finite PosInf \<and> determine_stage PosInf = ''installation'' \<and>
   determine_stage_working PosInf = ''installation''"
  using determine_stage_not_finite [of NaN] determine_stage_not_finite [of PosInf]
  by simp

text \<open>
  C6. Monotonicity: when score \<open>a\<close> is less than score \<open>b\<close> (the comparison of floats, so
  neither is NaN), the stage of \<open>a\<close> is not more mature than the stage of \<open>b\<close>. This holds
  for both classifiers.
\<close>

theorem determine_stage_monotone:
  "float_lt a b \<Longrightarrow>
     maturity (determine_stage a) \<le> maturity (determine_stage b) \<and>
     maturity (determine_stage_working a) \<le> maturity (determine_stage_working b)"
  by (cases a; cases b)
    (simp_all add: determine_stage_Finite determine_stage_working_Finite
      determine_stage_nonfinite determine_stage_working_nonfinite maturity_def)

theorem determine_stage_monotone_witness:
  "float_lt (Finite 0.65) (Finite 0.9) \<and>
   maturity (determine_stage (Finite 0.65)) \<le> maturity (determine_stage (Finite 0.9)) \<and>
   maturity (determine_stage (Finite 0.65)) = 1 \<and> maturity (determine_stage (Finite 0.9)) = 2 \<and>
   maturity (determine_stage_working (Finite 0.65)) = 0"
  using determine_stage_monotone [of "Finite 0.65" "Finite 0.9"]
  by (simp add: determine_stage_Finite determine_stage_working_Finite maturity_def)

text \<open>
  C7. Empty-band omission: when no record of the log contributes a score to stage \<open>s\<close>,
  the table that either script produces has no entry for \<open>s\<close>.
\<close>

theorem empty_band_omitted:
  "(stage5_self_learning (Some rows) = Inr T \<and>
    (\<forall>r\<in>set (map cleaning rows). \<not> contributes r s) \<longrightarrow> T s = None) \<and>
   (stage5_working (Some df) = Inr W \<and>
    (\<forall>r\<in>set (map verdict_lower df). \<not> contributes r s) \<longrightarrow> W s = None)"
proof (intro conjI impI)
  assume "stage5_self_learning (Some rows) = Inr T \<and>
    (\<forall>r\<in>set (map cleaning rows). \<not> contributes r s)"
  then have T: "T = stage_thresholds (correct (map cleaning rows)) (incorrect (map cleaning rows))"
    and no: "\<forall>r\<in>set (map cleaning rows). \<not> contributes r s"
    by (simp_all add: self_learning_Inr)
  from no have "spec_scores (map cleaning rows) s = {#}"
    by (auto simp add: spec_scores_def)
  then have "stage_sims (correct (map cleaning rows)) (incorrect (map cleaning rows)) s = []"
    by (metis mset_stage_sims mset_zero_iff)
  then show "T s = None"
    by (simp add: T stage_thresholds_apply)
next
  assume "stage5_working (Some df) = Inr W \<and>
    (\<forall>r\<in>set (map verdict_lower df). \<not> contributes r s)"
  then have W: "W = adaptive_thresholds (correct_predictions df) (incorrect_predictions df)"
    and no: "\<forall>r\<in>set (map verdict_lower df). \<not> contributes r s"
    by (simp_all add: working_Inr)
  from no have "spec_scores (map verdict_lower df) s = {#}"
    by (auto simp add: spec_scores_def)
  then have "stage_sims (correct_predictions df) (incorrect_predictions df) s = []"
    by (metis mset_stage_sims_working mset_zero_iff)
  then show "W s = None"
    by (simp add: W adaptive_thresholds_apply)
qed

theorem empty_band_omitted_witness:
  "stage5_self_learning (Some scenario3_log) =
     Inr (stage_thresholds (correct (map cleaning scenario3_log))
            (incorrect (map cleaning scenario3_log))) \<and>
   \<not> (\<exists>r\<in>set (map cleaning scenario3_log). contributes r ''foundation'') \<and>
   stage_thresholds (correct (map cleaning scenario3_log)) (incorrect (map cleaning scenario3_log))
     ''foundation'' = None \<and>
   stage5_working (Some scenario3_log) =
     Inr (adaptive_thresholds (correct_predictions scenario3_log)
            (incorrect_predictions scenario3_log)) \<and>
   \<not> (\<exists>r\<in>set (map verdict_lower scenario3_log). contributes r ''foundation'') \<and>
   adaptive_thresholds (correct_predictions scenario3_log) (incorrect_predictions scenario3_log)
     ''foundation'' = None"
proof -
  let ?T = "stage_thresholds (correct (map cleaning scenario3_log))
      (incorrect (map cleaning scenario3_log))"
  let ?W = "adaptive_thresholds (correct_predictions scenario3_log)
      (incorrect_predictions scenario3_log)"
  have run: "stage5_self_learning (Some scenario3_log) = Inr ?T"
    using scenario3_run(1,3) by (simp add: self_learning_Inr)
  have run_w: "stage5_working (Some scenario3_log) = Inr ?W"
    using scenario3_run(2) by (simp add: working_Inr)
  have no: "\<forall>r\<in>set (map cleaning scenario3_log). \<not> contributes r ''foundation''"
    by (simp add: scenario3_log_def cleaning_def lower_yes_no contributes_def)
  have no_w: "\<forall>r\<in>set (map verdict_lower scenario3_log). \<not> contributes r ''foundation''"
    by (simp add: scenario3_log_def verdict_lower_def lower_yes_no contributes_def)
  from empty_band_omitted [of scenario3_log ?T "''foundation''" scenario3_log ?W]
    run run_w no no_w
  have "?T ''foundation'' = None" "?W ''foundation'' = None"
    by blast+
  then show ?thesis
    using run run_w no no_w by blast
qed

text \<open>
  C8, where the claim as worded fails. The log made of one record marked correct
  (mounting, 0.75) and one malformed record yields the mounting band, while the same log
  without the malformed record stops at the guard "all feedback entries are correct" and
  yields no table: the malformed record counts as an incorrect entry for that guard.
\<close>

theorem malformed_record_counterexample:
  "malformed malformed_row \<and>
   stage5_self_learning (Some (scenario2_log @ [malformed_row])) =
     Inr [''mounting'' \<mapsto> \<lparr>mean_similarity = Val 0.75, std_dev = Val 0,
            recommended_min = Val 0.75, recommended_max = Val 0.75, sample_size = 1\<rparr>] \<and>
   stage5_self_learning (Some scenario2_log) = Inl AllEntriesCorrect"
proof -
  have m: "malformed malformed_row"
    by (simp add: malformed_def malformed_row_def lower_yes_no)
  have sims: "stage_sims (correct (map cleaning (scenario2_log @ [malformed_row])))
      (incorrect (map cleaning (scenario2_log @ [malformed_row]))) s =
      (if s = ''mounting'' then [Val 0.75] else [])" if "s \<in> set stages" for s
    using stages_nonempty [OF that]
    by (auto simp add: scenario2_log_def malformed_row_def cleaning_def lower_yes_no
        stage_sims_def correct_def incorrect_def)
  have run: "cleaning_accessors (scenario2_log @ [malformed_row])"
    "incorrect (map cleaning (scenario2_log @ [malformed_row])) \<noteq> []"
    by (simp_all add: scenario2_log_def malformed_row_def cleaning_accessors_def str_accessor_def
        cleaning_def lower_yes_no incorrect_def)
  have t: "stage_thresholds (correct (map cleaning (scenario2_log @ [malformed_row])))
      (incorrect (map cleaning (scenario2_log @ [malformed_row]))) =
      [''mounting'' \<mapsto> threshold_band py_round3 [Val 0.75]]"
  proof (rule ext)
    fix s
    show "stage_thresholds (correct (map cleaning (scenario2_log @ [malformed_row])))
        (incorrect (map cleaning (scenario2_log @ [malformed_row]))) s =
        [''mounting'' \<mapsto> threshold_band py_round3 [Val 0.75]] s"
    proof (cases "s \<in> set stages")
      case True
      then show ?thesis
        by (simp only: stage_thresholds_apply sims [OF True]) simp
    next
      case False
      then show ?thesis
        by (auto simp add: stage_thresholds_apply stages_def)
    qed
  qed
  have full: "stage5_self_learning (Some (scenario2_log @ [malformed_row])) =
     Inr [''mounting'' \<mapsto> \<lparr>mean_similarity = Val 0.75, std_dev = Val 0,
            recommended_min = Val 0.75, recommended_max = Val 0.75, sample_size = 1\<rparr>]"
    using run by (simp only: self_learning_Inr t band_scenario2 simp_thms)
  have "stage5_self_learning (Some scenario2_log) = Inl AllEntriesCorrect"
    using scenario2_run(1,3,4) by (simp add: self_learning_Some)
  with m full show ?thesis
    by (intro conjI)
qed

text \<open>
  C8, as the code has it. A malformed record adds nothing to the sample of any of the
  three stages, in either script. Whenever a script yields a table for the log without
  the record, it yields the same table for the log with it. For the log with the record,
  \<open>stage5_self_learning.py\<close> is never stopped by its empty-log or all-correct guard: it
  yields the table computed from the other records, unless pandas refuses the \<open>.str\<close>
  accessor on a predicted-stage column without text; \<open>stage5_working.py\<close> always yields
  the table computed from the other records.
\<close>

theorem malformed_record_excluded:
  assumes "malformed m"
  shows "(\<forall>s\<in>set stages.
            stage_sims (correct (map cleaning (xs @ m # ys)))
              (incorrect (map cleaning (xs @ m # ys))) s =
            stage_sims (correct (map cleaning (xs @ ys))) (incorrect (map cleaning (xs @ ys))) s \<and>
            stage_sims (correct_predictions (xs @ m # ys)) (incorrect_predictions (xs @ m # ys)) s =
            stage_sims (correct_predictions (xs @ ys)) (incorrect_predictions (xs @ ys)) s) \<and>
         stage5_self_learning (Some (xs @ m # ys)) =
           (if str_accessor (map predicted_stage (xs @ m # ys))
            then Inr (stage_thresholds (correct (map cleaning (xs @ ys)))
                        (incorrect (map cleaning (xs @ ys))))
            else Inl StrAccessorError) \<and>
         (stage5_self_learning (Some (xs @ ys)) = Inr T \<longrightarrow>
            stage5_self_learning (Some (xs @ m # ys)) = Inr T) \<and>
         stage5_working (Some (xs @ m # ys)) =
           Inr (adaptive_thresholds (correct_predictions (xs @ ys))
                  (incorrect_predictions (xs @ ys))) \<and>
         (stage5_working (Some (xs @ ys)) = Inr W \<longrightarrow>
            stage5_working (Some (xs @ m # ys)) = Inr W)"
proof -
  note mc = malformed_cleaning [OF assms]
  have sims: "\<forall>s\<in>set stages.
            stage_sims (correct (map cleaning (xs @ m # ys)))
              (incorrect (map cleaning (xs @ m # ys))) s =
            stage_sims (correct (map cleaning (xs @ ys))) (incorrect (map cleaning (xs @ ys))) s \<and>
            stage_sims (correct_predictions (xs @ m # ys)) (incorrect_predictions (xs @ m # ys)) s =
            stage_sims (correct_predictions (xs @ ys)) (incorrect_predictions (xs @ ys)) s"
    using malformed_sims_self [OF assms] malformed_sims_working [OF assms] by blast
  have inc: "incorrect (map cleaning (xs @ m # ys)) \<noteq> []"
    using mc(1) by (simp add: incorrect_def)
  have tbl: "stage_thresholds (correct (map cleaning (xs @ m # ys)))
        (incorrect (map cleaning (xs @ m # ys))) =
      stage_thresholds (correct (map cleaning (xs @ ys))) (incorrect (map cleaning (xs @ ys)))"
    by (rule stage_thresholds_cong(1)) (rule malformed_sims_self [OF assms])
  have tbl_w: "adaptive_thresholds (correct_predictions (xs @ m # ys))
        (incorrect_predictions (xs @ m # ys)) =
      adaptive_thresholds (correct_predictions (xs @ ys)) (incorrect_predictions (xs @ ys))"
    by (rule stage_thresholds_cong(2)) (rule malformed_sims_working [OF assms])
  have acc: "cleaning_accessors (xs @ m # ys) = str_accessor (map predicted_stage (xs @ m # ys))"
    using str_accessor_text [of "\<lambda>r. fillna (is_correct r)" m xs ys, OF mc(4)]
      str_accessor_text [of "\<lambda>r. fillna (corrected_stage r)" m xs ys, OF mc(5)]
    by (simp add: cleaning_accessors_def)
  have ne: "xs @ m # ys \<noteq> []" by simp
  have full: "stage5_self_learning (Some (xs @ m # ys)) =
           (if str_accessor (map predicted_stage (xs @ m # ys))
            then Inr (stage_thresholds (correct (map cleaning (xs @ ys)))
                        (incorrect (map cleaning (xs @ ys))))
            else Inl StrAccessorError)"
    using inc ne by (simp only: self_learning_Some acc tbl simp_thms if_False if_not_P split: if_splits)
      simp
  have up: "stage5_self_learning (Some (xs @ ys)) = Inr T \<longrightarrow>
            stage5_self_learning (Some (xs @ m # ys)) = Inr T"
  proof
    assume "stage5_self_learning (Some (xs @ ys)) = Inr T"
    then have a: "cleaning_accessors (xs @ ys)" and i: "incorrect (map cleaning (xs @ ys)) \<noteq> []"
      and T: "T = stage_thresholds (correct (map cleaning (xs @ ys))) (incorrect (map cleaning (xs @ ys)))"
      by (simp_all add: self_learning_Inr)
    from i have "xs @ ys \<noteq> []" by (auto simp add: incorrect_def)
    with a have "str_accessor (map predicted_stage (xs @ m # ys))"
      by (intro str_accessor_insert) (simp_all add: cleaning_accessors_def)
    with full T show "stage5_self_learning (Some (xs @ m # ys)) = Inr T" by simp
  qed
  have acc_w: "str_accessor (map is_correct (xs @ m # ys))"
    using mc(3) by (rule str_accessor_text)
  have full_w: "stage5_working (Some (xs @ m # ys)) =
           Inr (adaptive_thresholds (correct_predictions (xs @ ys))
                  (incorrect_predictions (xs @ ys)))"
    using acc_w by (simp only: working_Some tbl_w simp_thms if_False)
  have up_w: "stage5_working (Some (xs @ ys)) = Inr W \<longrightarrow>
            stage5_working (Some (xs @ m # ys)) = Inr W"
    using full_w by (simp add: working_Inr)
  show ?thesis
    using sims full up full_w up_w by (intro conjI)
qed

theorem malformed_record_excluded_witness:
  "malformed malformed_row \<and>
   stage5_self_learning (Some scenario3_log) =
     Inr (stage_thresholds (correct (map cleaning scenario3_log))
            (incorrect (map cleaning scenario3_log))) \<and>
   stage5_self_learning (Some (malformed_row # scenario3_log)) =
     stage5_self_learning (Some scenario3_log) \<and>
   stage5_working (Some scenario3_log) =
     Inr (adaptive_thresholds (correct_predictions scenario3_log)
            (incorrect_predictions scenario3_log)) \<and>
   stage5_working (Some (malformed_row # scenario3_log)) = stage5_working (Some scenario3_log) \<and>
   stage5_working (Some (scenario2_log @ [malformed_row])) =
     Inr (adaptive_thresholds (correct_predictions scenario2_log)
            (incorrect_predictions scenario2_log))"
proof -
  let ?T = "stage_thresholds (correct (map cleaning scenario3_log))
      (incorrect (map cleaning scenario3_log))"
  let ?W = "adaptive_thresholds (correct_predictions scenario3_log)
      (incorrect_predictions scenario3_log)"
  have m: "malformed malformed_row"
    by (simp add: malformed_def malformed_row_def lower_yes_no)
  have run: "stage5_self_learning (Some scenario3_log) = Inr ?T"
    using scenario3_run(1,3) by (simp add: self_learning_Inr)
  have run_w: "stage5_working (Some scenario3_log) = Inr ?W"
    using scenario3_run(2) by (simp add: working_Inr)
  from malformed_record_excluded [OF m, of "[]" scenario3_log ?T ?W] run run_w
  have a: "stage5_self_learning (Some (malformed_row # scenario3_log)) = Inr ?T"
    "stage5_working (Some (malformed_row # scenario3_log)) = Inr ?W"
    unfolding append_Nil by blast+
  from malformed_record_excluded [OF m, of scenario2_log "[]"]
  have b: "stage5_working (Some (scenario2_log @ [malformed_row])) =
     Inr (adaptive_thresholds (correct_predictions scenario2_log)
            (incorrect_predictions scenario2_log))"
    by simp
  show ?thesis
    using m run run_w a b by simp
qed

text \<open>
  C9. The two classifiers are different functions. On a finite score from 0.60 (included)
  to 0.70 (excluded) the one of \<open>stage3_rule_based_analysis.py\<close> answers mounting and the
  one of \<open>stage3_working.py\<close> answers foundation; on every other float, finite or not,
  they give the same answer.
\<close>

theorem determine_stage_variants:
  "determine_stage \<noteq> determine_stage_working \<and>
   (0.60 \<le> x \<and> x < 0.70 \<longrightarrow>
      determine_stage (Finite x) = ''mounting'' \<and>
      determine_stage_working (Finite x) = ''foundation'') \<and>
   (\<not> (0.60 \<le> x \<and> x < 0.70) \<longrightarrow>
      determine_stage (Finite x) = determine_stage_working (Finite x)) \<and>
   determine_stage PosInf = determine_stage_working PosInf \<and>
   determine_stage NegInf = determine_stage_working NegInf \<and>
   determine_stage NaN = determine_stage_working NaN"
proof -
  have "determine_stage (Finite 0.65) \<noteq> determine_stage_working (Finite 0.65)"
    by (simp add: determine_stage_Finite determine_stage_working_Finite)
  then have "determine_stage \<noteq> determine_stage_working"
    by metis
  then show ?thesis
    by (simp add: determine_stage_Finite determine_stage_working_Finite
        determine_stage_nonfinite determine_stage_working_nonfinite)
qed

theorem determine_stage_variants_witness:
  "(0.60::real) \<le> 0.65 \<and> (0.65::real) < 0.70 \<and>
   determine_stage (Finite 0.65) = ''mounting'' \<and>
   determine_stage_working (Finite 0.65) = ''foundation'' \<and>
   \<not> ((0.60::real) \<le> 0.70 \<and> (0.70::real) < 0.70) \<and>
   determine_stage (Finite 0.70) = determine_stage_working (Finite 0.70)"
  using determine_stage_variants [of "0.65"] determine_stage_variants [of "0.70"]
  by simp

text \<open>
  C10. The classifier is total: on every float, NaN and the infinities included, each
  variant returns one of the three stage names. NaN and negative infinity are classified
  as foundation, positive infinity as installation.
\<close>

theorem determine_stage_total:
  "determine_stage a \<in> {''foundation'', ''mounting'', ''installation''} \<and>
   determine_stage_working a \<in> {''foundation'', ''mounting'', ''installation''} \<and>
   determine_stage NaN = ''foundation'' \<and> determine_stage NegInf = ''foundation'' \<and>
   determine_stage PosInf = ''installation'' \<and>
   determine_stage_working NaN = ''foundation'' \<and>
   determine_stage_working NegInf = ''foundation'' \<and>
   determine_stage_working PosInf = ''installation''"
  by (cases a)
    (simp_all add: determine_stage_Finite determine_stage_working_Finite
      determine_stage_nonfinite determine_stage_working_nonfinite)

end
